theory Spec2Isabelle
  imports Complex_Main "HOL-Library.Sublist"
begin

section \<open>The geometry viewer script\<close>

text \<open>
  The program is one script, \<^verbatim>\<open>streamlit_app.py\<close>, that runs top to bottom on every
  interaction. Its effects are the widgets and messages it puts on the page and the
  temporary file it creates and removes. The embedding makes both explicit: a pass
  returns the list of page events in the order the script emits them, together with the
  file system after the pass.

  The parquet reader, geopandas, shapely and folium are not part of the script. Each
  call into them is a field of the record \<open>libs\<close>; a call that may raise returns a sum
  whose left side is the exception's message. The choices the user makes in the two
  input widgets are the fields of the record \<open>user\<close>. Every theorem below holds for all
  behaviours of the libraries and of the user unless it says otherwise.

  The static text of the page (title, introduction, the list of supported formats and
  the sidebar) does not depend on the upload and is left out of the event list.
\<close>

subsection \<open>Strings\<close>

text \<open>
  \<^verbatim>\<open>str.lower()\<close> on the letters A to Z; every other character is left as it is.
  Characters are bytes here. No character outside ASCII lowers to one of the letters of
  the two tokens the script looks for, so the bytes of a UTF-8 encoded name match the
  tokens exactly when the code points of the name do.
\<close>

definition lower_char :: "char \<Rightarrow> char" where
  "lower_char c =
     (case map_of (zip ''ABCDEFGHIJKLMNOPQRSTUVWXYZ'' ''abcdefghijklmnopqrstuvwxyz'') c of
        None \<Rightarrow> c
      | Some d \<Rightarrow> d)"

definition lower :: "string \<Rightarrow> string" where
  "lower s = map lower_char s"

fun startswith :: "'a list \<Rightarrow> 'a list \<Rightarrow> bool" where
  "startswith [] s = True"
| "startswith (a # as) [] = False"
| "startswith (a # as) (c # cs) = (a = c \<and> startswith as cs)"

text \<open>\<^verbatim>\<open>sub in s\<close> on strings: \<open>sub\<close> occurs in \<open>s\<close> as a contiguous block.\<close>

fun contains :: "'a list \<Rightarrow> 'a list \<Rightarrow> bool" where
  "contains sub [] = (sub = [])"
| "contains sub (c # cs) = (startswith sub (c # cs) \<or> contains sub cs)"

text \<open>\<^verbatim>\<open>sep.join(items)\<close>.\<close>

fun join :: "string \<Rightarrow> string list \<Rightarrow> string" where
  "join sep [] = []"
| "join sep [x] = x"
| "join sep (x # y # ys) = x @ sep @ join sep (y # ys)"

subsection \<open>Data\<close>

type_synonym exn = string
type_synonym bytes = string
type_synonym crs = string
type_synonym label = int

datatype cell = Null | Str string | Bytes bytes | Num int

text \<open>The pandas frame \<^verbatim>\<open>df\<close>: the column names in order and the rows of values.\<close>

record dataframe =
  columns :: "string list"
  records :: "cell list list"

text \<open>
  A decoded geometry: the name shapely reports as its type and its coordinates.
  Coordinates are idealised as real numbers.
\<close>

record BaseGeometry =
  geom_type :: string
  coords :: "(real \<times> real) list"

text \<open>
  A row of the \<^verbatim>\<open>GeoDataFrame\<close>: its index label, the other column values and the
  geometry, which is \<open>None\<close> for a missing geometry.
\<close>

record row =
  idx :: label
  attrs :: "cell list"
  geometry :: "BaseGeometry option"

text \<open>
  The frame with its CRS, \<open>None\<close> when unknown. A CRS is its authority name; the
  comparison of line 83 with \<^verbatim>\<open>"EPSG:4326"\<close> is equality of names.
\<close>

record GeoDataFrame =
  rows :: "row list"
  crs :: "crs option"

text \<open>\<^verbatim>\<open>total_bounds\<close>: the array (min-x, min-y, max-x, max-y), indexed 0 to 3.\<close>

type_synonym bounds = "real \<times> real \<times> real \<times> real"

datatype marker = Marker (marker_location: "real \<times> real") (popup_id: label)

datatype layer =
    MarkerCluster "marker list"
  | GeoJson string "row list" "(string \<times> string) list"
  | LayerControl

record folium_map =
  location :: "real \<times> real"
  zoom_start :: nat
  children :: "layer list"

datatype event =
    Info string
  | Error string
  | Warning string
  | Subheader string
  | Write_total_rows nat
  | Write_crs "crs option"
  | Write_geometry_types string
  | Dataframe dataframe
  | Selectbox string "string list"
  | Multiselect string "string list" "string list"
  | Folium_static folium_map

subsection \<open>The libraries and the user\<close>

text \<open>
  \<^item> \<open>read_table\<close>: \<^verbatim>\<open>pq.read_table(path).to_pandas()\<close> on the bytes of the file;
  \<^item> \<open>gpd_GeoDataFrame\<close>: \<^verbatim>\<open>gpd.GeoDataFrame(df, geometry=col)\<close>;
  \<^item> \<open>from_wkt\<close>, \<open>from_wkb\<close>:
    \<^verbatim>\<open>gpd.GeoDataFrame(df, geometry=gpd.GeoSeries.from_wkt(df[col]))\<close> and its WKB twin;
  \<^item> \<open>to_crs\<close>: \<^verbatim>\<open>frame.to_crs(target)\<close>;
  \<^item> \<open>total_bounds\<close>: \<^verbatim>\<open>frame.total_bounds\<close>;
  \<^item> \<open>folium_Map\<close>: the check \<^verbatim>\<open>folium.Map\<close> makes of its location, \<open>Some e\<close> when it raises;
  \<^item> \<open>point_xy\<close>: \<^verbatim>\<open>(geometry.x, geometry.y)\<close>;
  \<^item> \<open>geojson\<close>: the serialisation \<^verbatim>\<open>folium.GeoJson\<close> makes of its data, \<open>Some e\<close> when it
    raises.
\<close>

record libs =
  read_table :: "bytes \<Rightarrow> exn + dataframe"
  gpd_GeoDataFrame :: "dataframe \<Rightarrow> string \<Rightarrow> exn + GeoDataFrame"
  from_wkt :: "dataframe \<Rightarrow> string \<Rightarrow> exn + GeoDataFrame"
  from_wkb :: "dataframe \<Rightarrow> string \<Rightarrow> exn + GeoDataFrame"
  to_crs :: "GeoDataFrame \<Rightarrow> crs \<Rightarrow> exn + GeoDataFrame"
  total_bounds :: "GeoDataFrame \<Rightarrow> bounds"
  folium_Map :: "real \<times> real \<Rightarrow> exn option"
  point_xy :: "BaseGeometry \<Rightarrow> exn + real \<times> real"
  geojson :: "row list \<Rightarrow> exn option"

text \<open>
  What the user picks in \<^verbatim>\<open>st.selectbox\<close> and in \<^verbatim>\<open>st.multiselect\<close>, given the options
  shown. Streamlit returns options only: \<open>selectbox u opts \<in> set opts\<close> and
  \<open>set (multiselect u opts) \<subseteq> set opts\<close>. The theorems that need this say so.
\<close>

record user =
  selectbox :: "string list \<Rightarrow> string"
  multiselect :: "string list \<Rightarrow> string list"

subsection \<open>Geometry column resolution (lines 31 to 40)\<close>

definition geometry_cols :: "dataframe \<Rightarrow> string list" where
  "geometry_cols df =
     filter (\<lambda>col. contains ''geom'' (lower col) \<or> contains ''geometry'' (lower col))
       (columns df)"

subsection \<open>Geometry decoding (lines 44 to 55)\<close>

text \<open>
  \<^verbatim>\<open>gdf.geometry.iloc[0]\<close>: the first geometry, \<^verbatim>\<open>IndexError\<close> on a frame without rows.
\<close>

definition iloc0 :: "GeoDataFrame \<Rightarrow> exn + BaseGeometry option" where
  "iloc0 gdf =
     (case rows gdf of
        [] \<Rightarrow> Inl ''single positional indexer is out-of-bounds''
      | r # _ \<Rightarrow> Inr (geometry r))"

text \<open>
  \<^verbatim>\<open>isinstance(value, gpd.geoseries.GeoSeries)\<close> on an element of the geometry column.
  An element is a shapely geometry or \<^verbatim>\<open>None\<close>, never a series.
\<close>

definition isinstance_GeoSeries :: "BaseGeometry option \<Rightarrow> bool" where
  "isinstance_GeoSeries g = False"

text \<open>
  The result is the events emitted and either the exception that leaves the block or the
  frame the script goes on with.
\<close>

definition decode :: "libs \<Rightarrow> dataframe \<Rightarrow> string \<Rightarrow> event list \<times> (exn + GeoDataFrame)" where
  "decode L df geometry_col =
     (case gpd_GeoDataFrame L df geometry_col of
        Inl e \<Rightarrow> ([], Inl e)
      | Inr gdf \<Rightarrow>
          (case iloc0 gdf of
             Inl e \<Rightarrow> ([], Inl e)
           | Inr g \<Rightarrow>
               if \<not> isinstance_GeoSeries g then
                 (case from_wkt L df geometry_col of
                    Inr gdf_wkt \<Rightarrow> ([], Inr gdf_wkt)
                  | Inl _ \<Rightarrow>
                      (case from_wkb L df geometry_col of
                         Inr gdf_wkb \<Rightarrow> ([], Inr gdf_wkb)
                       | Inl _ \<Rightarrow>
                           ([Error ''Could not convert the geometry column to a valid geometry. Please check your data.''],
                            Inr gdf)))
               else ([], Inr gdf)))"

subsection \<open>Summary (lines 57 to 75)\<close>

definition row_type :: "row \<Rightarrow> string option" where
  "row_type r = map_option geom_type (geometry r)"

text \<open>\<^verbatim>\<open>Series.unique()\<close>: the distinct values in order of first appearance.\<close>

fun unique :: "'a list \<Rightarrow> 'a list" where
  "unique [] = []"
| "unique (x # xs) = x # filter (\<lambda>y. y \<noteq> x) (unique xs)"

definition geometry_types :: "GeoDataFrame \<Rightarrow> string option list" where
  "geometry_types gdf = unique (map row_type (rows gdf))"

text \<open>
  \<^verbatim>\<open>', '.join(geometry_types)\<close> accepts strings only: the type of a missing geometry is
  \<^verbatim>\<open>None\<close> and makes it raise \<^verbatim>\<open>TypeError\<close>.
\<close>

fun str_items :: "string option list \<Rightarrow> exn + string list" where
  "str_items [] = Inr []"
| "str_items (None # xs) = Inl ''sequence item: expected str instance, NoneType found''"
| "str_items (Some s # xs) =
     (case str_items xs of Inl e \<Rightarrow> Inl e | Inr ss \<Rightarrow> Inr (s # ss))"

definition head :: "dataframe \<Rightarrow> dataframe" where
  "head df = df\<lparr>records := take 5 (records df)\<rparr>"

subsection \<open>Filter, normalise and render (lines 77 to 143)\<close>

text \<open>\<^verbatim>\<open>series.isin(values)\<close>: the boolean mask of the rows whose type is one of the values.\<close>

definition isin :: "string option list \<Rightarrow> string list \<Rightarrow> bool list" where
  "isin types vals = map (\<lambda>t. case t of None \<Rightarrow> False | Some s \<Rightarrow> s \<in> set vals) types"

text \<open>\<^verbatim>\<open>frame[mask]\<close>: the rows at which the mask is true.\<close>

definition boolean_index :: "'a list \<Rightarrow> bool list \<Rightarrow> 'a list" where
  "boolean_index xs flags = map fst (filter snd (zip xs flags))"

definition filterByTypes :: "GeoDataFrame \<Rightarrow> string list \<Rightarrow> GeoDataFrame" where
  "filterByTypes gdf selected_types =
     gdf\<lparr>rows := boolean_index (rows gdf) (isin (map row_type (rows gdf)) selected_types)\<rparr>"

text \<open>Lines 83 and 84. The guard reads the CRS of the unfiltered frame.\<close>

definition normalizeCRS :: "libs \<Rightarrow> GeoDataFrame \<Rightarrow> GeoDataFrame \<Rightarrow> exn + GeoDataFrame" where
  "normalizeCRS L gdf filtered_gdf =
     (if crs gdf \<noteq> None \<and> crs gdf \<noteq> Some ''EPSG:4326''
      then to_crs L filtered_gdf ''EPSG:4326''
      else Inr filtered_gdf)"

text \<open>The loop over \<^verbatim>\<open>type_gdf.iterrows()\<close> of lines 102 to 106.\<close>

fun markers :: "libs \<Rightarrow> row list \<Rightarrow> exn + marker list" where
  "markers L [] = Inr []"
| "markers L (r # rs) =
     (case geometry r of
        None \<Rightarrow> Inl ''NoneType object has no attribute y''
      | Some g \<Rightarrow>
          (case point_xy L g of
             Inl e \<Rightarrow> Inl e
           | Inr (x, y) \<Rightarrow>
               (case markers L rs of
                  Inl e \<Rightarrow> Inl e
                | Inr ms \<Rightarrow> Inr (Marker (y, x) (idx r) # ms))))"

definition line_style :: "(string \<times> string) list" where
  "line_style = [(''color'', ''blue''), (''weight'', ''3''), (''opacity'', ''0.7'')]"

definition polygon_style :: "(string \<times> string) list" where
  "polygon_style =
     [(''fillColor'', ''green''), (''color'', ''black''), (''weight'', ''1''),
      (''fillOpacity'', ''0.5'')]"

definition add_to :: "layer \<Rightarrow> folium_map \<Rightarrow> folium_map" where
  "add_to l m = m\<lparr>children := children m @ [l]\<rparr>"

text \<open>The body of the loop over the selected types, lines 96 to 131.\<close>

definition add_layer :: "libs \<Rightarrow> GeoDataFrame \<Rightarrow> string \<Rightarrow> folium_map \<Rightarrow> exn + folium_map" where
  "add_layer L filtered_gdf gt m =
     (let type_gdf =
            boolean_index (rows filtered_gdf)
              (map (\<lambda>r. row_type r = Some gt) (rows filtered_gdf))
      in
        if length type_gdf > 0 then
          if gt = ''Point'' then
            (case markers L type_gdf of
               Inl e \<Rightarrow> Inl e
             | Inr ms \<Rightarrow> Inr (add_to (MarkerCluster ms) m))
          else if gt \<in> set [''LineString'', ''MultiLineString''] then
            (case geojson L type_gdf of
               Some e \<Rightarrow> Inl e
             | None \<Rightarrow> Inr (add_to (GeoJson gt type_gdf line_style) m))
          else if gt \<in> set [''Polygon'', ''MultiPolygon''] then
            (case geojson L type_gdf of
               Some e \<Rightarrow> Inl e
             | None \<Rightarrow> Inr (add_to (GeoJson gt type_gdf polygon_style) m))
          else Inr m
        else Inr m)"

fun add_layers :: "libs \<Rightarrow> GeoDataFrame \<Rightarrow> string list \<Rightarrow> folium_map \<Rightarrow> exn + folium_map" where
  "add_layers L filtered_gdf [] m = Inr m"
| "add_layers L filtered_gdf (gt # gts) m =
     (case add_layer L filtered_gdf gt m of
        Inl e \<Rightarrow> Inl e
      | Inr m' \<Rightarrow> add_layers L filtered_gdf gts m')"

text \<open>Lines 87 to 89.\<close>

definition map_center :: "bounds \<Rightarrow> real \<times> real" where
  "map_center b =
     (case b of (b0, b1, b2, b3) \<Rightarrow>
        (let center_lat = (b1 + b3) / 2;
             center_lon = (b0 + b2) / 2
         in (center_lat, center_lon)))"

text \<open>The body of the inner \<^verbatim>\<open>try\<close>, lines 82 to 134.\<close>

definition build_map ::
  "libs \<Rightarrow> GeoDataFrame \<Rightarrow> GeoDataFrame \<Rightarrow> string list \<Rightarrow> exn + folium_map" where
  "build_map L gdf filtered_gdf selected_types =
     (case normalizeCRS L gdf filtered_gdf of
        Inl e \<Rightarrow> Inl e
      | Inr filtered_gdf' \<Rightarrow>
          (let center = map_center (total_bounds L filtered_gdf') in
             case folium_Map L center of
               Some e \<Rightarrow> Inl e
             | None \<Rightarrow>
                 (case add_layers L filtered_gdf' selected_types
                         \<lparr>location = center, zoom_start = 10, children = []\<rparr> of
                    Inl e \<Rightarrow> Inl e
                  | Inr m \<Rightarrow> Inr (add_to LayerControl m))))"

definition filter_and_render :: "libs \<Rightarrow> GeoDataFrame \<Rightarrow> string list \<Rightarrow> event list" where
  "filter_and_render L gdf selected_types =
     (if selected_types \<noteq> [] then
        (case build_map L gdf (filterByTypes gdf selected_types) selected_types of
           Inl e \<Rightarrow> [Error (''Error creating map: '' @ e)]
         | Inr m \<Rightarrow> [Subheader ''Map Visualization'', Folium_static m])
      else [Warning ''Please select at least one geometry type to display''])"

subsection \<open>The processing pass (lines 19 to 155)\<close>

text \<open>
  The body of the \<^verbatim>\<open>try\<close> of lines 42 to 144: the events emitted and the exception that
  leaves the block, if any.
\<close>

definition process_geometry ::
  "libs \<Rightarrow> user \<Rightarrow> dataframe \<Rightarrow> string \<Rightarrow> event list \<times> exn option" where
  "process_geometry L U df geometry_col =
     (case decode L df geometry_col of
        (ev, Inl e) \<Rightarrow> (ev, Some e)
      | (ev, Inr gdf) \<Rightarrow>
          (let ev1 = ev @ [Subheader ''Data Information'',
                           Write_total_rows (length (rows gdf)),
                           Write_crs (crs gdf)]
           in
             case str_items (geometry_types gdf) of
               Inl e \<Rightarrow> (ev1, Some e)
             | Inr types \<Rightarrow>
                 (let selected_types = multiselect U types in
                    (ev1 @ [Write_geometry_types (join '', '' types),
                            Subheader ''Data Sample'',
                            Dataframe (head df),
                            Subheader ''Filter by Geometry Type'',
                            Multiselect ''Select geometry types to display'' types types]
                         @ filter_and_render L gdf selected_types,
                     None))))"

text \<open>Lines 42 to 146: the block with the handler of line 145.\<close>

definition try_process_geometry :: "libs \<Rightarrow> user \<Rightarrow> dataframe \<Rightarrow> string \<Rightarrow> event list" where
  "try_process_geometry L U df geometry_col =
     (case process_geometry L U df geometry_col of
        (ev, None) \<Rightarrow> ev
      | (ev, Some e) \<Rightarrow> ev @ [Error (''Error processing the data: '' @ e)])"

text \<open>Lines 31 to 146.\<close>

definition process_table :: "libs \<Rightarrow> user \<Rightarrow> dataframe \<Rightarrow> event list" where
  "process_table L U df =
     (let cols = geometry_cols df in
        if cols = [] then
          [Error ''No geometry column found in the uploaded file. Please make sure your file contains a column with geometry data.'']
        else if length cols > 1 then
          Selectbox ''Select geometry column'' cols
            # try_process_geometry L U df (selectbox U cols)
        else try_process_geometry L U df (cols ! 0))"

text \<open>The file system: the content of each path that exists.\<close>

type_synonym fs = "string \<rightharpoonup> bytes"

text \<open>Lines 27 to 149: the outer \<^verbatim>\<open>try\<close> with its handler.\<close>

definition process_file :: "libs \<Rightarrow> user \<Rightarrow> fs \<Rightarrow> string \<Rightarrow> event list" where
  "process_file L U files tmp_path =
     (case files tmp_path of
        None \<Rightarrow> [Error (''Error reading the parquet file: '' @ ''No such file or directory'')]
      | Some content \<Rightarrow>
          (case read_table L content of
             Inl e \<Rightarrow> [Error (''Error reading the parquet file: '' @ e)]
           | Inr df \<Rightarrow> process_table L U df))"

definition unlink :: "fs \<Rightarrow> string \<Rightarrow> fs" where
  "unlink files path = files(path := None)"

text \<open>
  One run of the script. \<open>tmp_path\<close> is the name \<^verbatim>\<open>NamedTemporaryFile\<close> picks; the file is
  written before the \<^verbatim>\<open>try\<close> and removed in its \<^verbatim>\<open>finally\<close>. The write of line 22 is
  taken to succeed: a pass starts once the file is on disk.
\<close>

definition run ::
  "libs \<Rightarrow> user \<Rightarrow> string \<Rightarrow> fs \<Rightarrow> bytes option \<Rightarrow> event list \<times> fs" where
  "run L U tmp_path files uploaded_file =
     (case uploaded_file of
        Some payload \<Rightarrow>
          (let files1 = files(tmp_path \<mapsto> payload) in
             (process_file L U files1 tmp_path, unlink files1 tmp_path))
      | None \<Rightarrow>
          ([Info ''Please upload a parquet file containing geometry data.''], files))"

subsection \<open>Sample inputs\<close>

text \<open>
  A file with the columns \<open>id\<close> and \<open>geometry\<close>, the geometry written as WKT: two points
  and a polygon, no CRS. The sample libraries behave on it as geopandas does: the plain
  constructor rejects the strings, the WKT parser accepts them.
\<close>

definition point_row :: "label \<Rightarrow> real \<Rightarrow> real \<Rightarrow> row" where
  "point_row i x y =
     \<lparr>idx = i, attrs = [Num i],
      geometry = Some \<lparr>geom_type = ''Point'', coords = [(x, y)]\<rparr>\<rparr>"

definition shape_row :: "label \<Rightarrow> string \<Rightarrow> (real \<times> real) list \<Rightarrow> row" where
  "shape_row i gt cs = \<lparr>idx = i, attrs = [Num i], geometry = Some \<lparr>geom_type = gt, coords = cs\<rparr>\<rparr>"

definition sample_df :: dataframe where
  "sample_df =
     \<lparr>columns = [''id'', ''geometry''],
      records = [[Num 0, Str ''POINT (1 2)''],
                 [Num 1, Str ''POLYGON ((1 2, 3 2, 3 6, 1 2))''],
                 [Num 2, Str ''POINT (3 6)'']]\<rparr>"

definition sample_gdf :: GeoDataFrame where
  "sample_gdf =
     \<lparr>rows = [point_row 0 1 2,
              shape_row 1 ''Polygon'' [(1, 2), (3, 2), (3, 6), (1, 2)],
              point_row 2 3 6],
      crs = None\<rparr>"

definition sample_libs :: libs where
  "sample_libs =
     \<lparr>read_table = (\<lambda>_. Inr sample_df),
      gpd_GeoDataFrame = (\<lambda>_ _. Inl ''Input must be valid geometry objects''),
      from_wkt = (\<lambda>_ _. Inr sample_gdf),
      from_wkb = (\<lambda>_ _. Inl ''Expected bytes''),
      to_crs = (\<lambda>f c. Inr (f\<lparr>crs := Some c\<rparr>)),
      total_bounds = (\<lambda>_. (1, 2, 3, 6)),
      folium_Map = (\<lambda>_. None),
      point_xy = (\<lambda>g. case coords g of [] \<Rightarrow> Inl ''empty point'' | c # _ \<Rightarrow> Inr c),
      geojson = (\<lambda>_. None)\<rparr>"

text \<open>A frame with one \<open>MultiPoint\<close> row.\<close>

definition multipoint_gdf :: GeoDataFrame where
  "multipoint_gdf = \<lparr>rows = [shape_row 0 ''MultiPoint'' [(1, 2), (3, 6)]], crs = None\<rparr>"

text \<open>A user who keeps the defaults: the first column, every type.\<close>

definition default_user :: user where
  "default_user = \<lparr>selectbox = (\<lambda>opts. opts ! 0), multiselect = (\<lambda>opts. opts)\<rparr>"

section \<open>Properties\<close>

subsection \<open>Column resolution\<close>

lemma startswith_prefix: "startswith xs ys \<longleftrightarrow> prefix xs ys"
  by (induction xs ys rule: startswith.induct) auto

lemma contains_sublist: "contains xs ys \<longleftrightarrow> sublist xs ys"
proof (induction ys)
  case Nil
  show ?case by simp
next
  case (Cons y ys)
  show ?case unfolding contains.simps Cons.IH startswith_prefix sublist_Cons_right ..
qed

lemma sublist_map_iff:
  "sublist ys (map f xs) \<longleftrightarrow> (\<exists>us. sublist us xs \<and> map f us = ys)"
proof
  assume "sublist ys (map f xs)"
  then show "\<exists>us. sublist us xs \<and> map f us = ys"
    using sublist_map_rightE[of ys f xs] by blast
next
  assume "\<exists>us. sublist us xs \<and> map f us = ys"
  then obtain us where "sublist us xs" "map f us = ys" by blast
  then show "sublist ys (map f xs)"
    using map_mono_sublist[of us xs f] by simp
qed

text \<open>The second test of line 31 never adds a column: the longer token holds the shorter.\<close>

lemma geom_in_geometry: "contains ''geometry'' s \<Longrightarrow> contains ''geom'' s"
proof -
  assume "contains ''geometry'' s"
  then obtain ps ss where "s = ps @ ''geometry'' @ ss"
    by (auto simp: contains_sublist sublist_def)
  then have "s = ps @ ''geom'' @ (''etry'' @ ss)" by simp
  then have "sublist ''geom'' s" unfolding sublist_def by blast
  then show ?thesis by (simp add: contains_sublist)
qed

lemma is_geometry_name:
  "contains ''geom'' (lower col) \<or> contains ''geometry'' (lower col) \<longleftrightarrow>
     (\<exists>u. sublist u col \<and> (lower u = ''geom'' \<or> lower u = ''geometry''))"
proof -
  have "contains t (lower col) \<longleftrightarrow> (\<exists>u. sublist u col \<and> lower u = t)" for t
    by (simp add: contains_sublist lower_def sublist_map_iff)
  then show ?thesis by blast
qed

lemma no_selectbox_in_filter_and_render:
  "Selectbox a b \<notin> set (filter_and_render L gdf sel)"
  by (simp add: filter_and_render_def split: sum.splits)

lemma decode_events:
  "fst (decode L df c) = [] \<or>
   fst (decode L df c) =
     [Error ''Could not convert the geometry column to a valid geometry. Please check your data.'']"
  by (simp add: decode_def isinstance_GeoSeries_def split: sum.splits)

lemma no_selectbox_in_process_geometry:
  "Selectbox a b \<notin> set (fst (process_geometry L U df c))"
proof -
  obtain ev r where d: "decode L df c = (ev, r)" by (cases "decode L df c")
  with decode_events[of L df c] have ev: "Selectbox a b \<notin> set ev" by auto
  show ?thesis
    using ev
    by (simp add: process_geometry_def d Let_def no_selectbox_in_filter_and_render
        split: sum.splits)
qed

lemma no_selectbox_in_try: "Selectbox a b \<notin> set (try_process_geometry L U df c)"
proof -
  obtain ev r where p: "process_geometry L U df c = (ev, r)"
    by (cases "process_geometry L U df c")
  with no_selectbox_in_process_geometry[of a b L U df c] have "Selectbox a b \<notin> set ev"
    by simp
  then show ?thesis
    by (simp add: try_process_geometry_def p split: option.splits)
qed

lemma geometry_cols_none:
  "geometry_cols \<lparr>columns = [''id'', ''name''], records = []\<rparr> = []"
  by (simp add: geometry_cols_def lower_def lower_char_def)

lemma geometry_cols_sample: "geometry_cols sample_df = [''geometry'']"
  by (simp add: geometry_cols_def lower_def lower_char_def sample_df_def)

lemma geometry_cols_two:
  "geometry_cols \<lparr>columns = [''The_GEOM'', ''id'', ''Geometry_wkb''], records = []\<rparr> =
     [''The_GEOM'', ''Geometry_wkb'']"
  by (simp add: geometry_cols_def lower_def lower_char_def)

text \<open>
  C2. The candidate columns are the column names that contain, in any mix of upper and
  lower case, the token \<open>geom\<close> or the token \<open>geometry\<close>, in their order in the frame.
  With no candidate the pass shows the error about the missing geometry column and
  nothing else. With exactly one candidate the pass goes on with it and shows no column
  selector. With more than one it shows the selector over all candidates and goes on
  with the column the user picks.
\<close>

theorem resolver_selects_by_name:
  "geometry_cols df =
     filter (\<lambda>col. \<exists>u. sublist u col \<and> (lower u = ''geom'' \<or> lower u = ''geometry''))
       (columns df)
   \<and> (geometry_cols df = [] \<longrightarrow>
        process_table L U df =
          [Error ''No geometry column found in the uploaded file. Please make sure your file contains a column with geometry data.''])
   \<and> (\<forall>c. geometry_cols df = [c] \<longrightarrow>
        process_table L U df = try_process_geometry L U df c
        \<and> (\<forall>lbl opts. Selectbox lbl opts \<notin> set (process_table L U df)))
   \<and> (1 < length (geometry_cols df) \<longrightarrow>
        process_table L U df =
          Selectbox ''Select geometry column'' (geometry_cols df)
            # try_process_geometry L U df (selectbox U (geometry_cols df)))"
proof -
  have a: "geometry_cols df =
     filter (\<lambda>col. \<exists>u. sublist u col \<and> (lower u = ''geom'' \<or> lower u = ''geometry''))
       (columns df)"
    unfolding geometry_cols_def is_geometry_name ..
  have b: "geometry_cols df = [] \<longrightarrow>
        process_table L U df =
          [Error ''No geometry column found in the uploaded file. Please make sure your file contains a column with geometry data.'']"
    by (simp add: process_table_def)
  have c: "\<forall>c. geometry_cols df = [c] \<longrightarrow>
        process_table L U df = try_process_geometry L U df c
        \<and> (\<forall>lbl opts. Selectbox lbl opts \<notin> set (process_table L U df))"
    by (simp add: process_table_def no_selectbox_in_try)
  have d: "1 < length (geometry_cols df) \<longrightarrow>
        process_table L U df =
          Selectbox ''Select geometry column'' (geometry_cols df)
            # try_process_geometry L U df (selectbox U (geometry_cols df))"
    by (auto simp: process_table_def Let_def)
  from a b c d show ?thesis by (intro conjI)
qed

theorem resolver_selects_by_name_witness:
  "process_table sample_libs default_user \<lparr>columns = [''id'', ''name''], records = []\<rparr> =
     [Error ''No geometry column found in the uploaded file. Please make sure your file contains a column with geometry data.'']
   \<and> process_table sample_libs default_user sample_df =
       try_process_geometry sample_libs default_user sample_df ''geometry''
   \<and> process_table sample_libs default_user
         \<lparr>columns = [''The_GEOM'', ''id'', ''Geometry_wkb''], records = []\<rparr> =
       Selectbox ''Select geometry column'' [''The_GEOM'', ''Geometry_wkb'']
         # try_process_geometry sample_libs default_user
             \<lparr>columns = [''The_GEOM'', ''id'', ''Geometry_wkb''], records = []\<rparr> ''The_GEOM''"
  using resolver_selects_by_name
          [of "\<lparr>columns = [''id'', ''name''], records = []\<rparr>" sample_libs default_user]
        resolver_selects_by_name [of sample_df sample_libs default_user]
        resolver_selects_by_name
          [of "\<lparr>columns = [''The_GEOM'', ''id'', ''Geometry_wkb''], records = []\<rparr>"
              sample_libs default_user]
  unfolding geometry_cols_none geometry_cols_sample geometry_cols_two
  by (simp add: default_user_def)

subsection \<open>Filtering by geometry type\<close>

lemma boolean_index_map: "boolean_index xs (map P xs) = filter P xs"
  by (induction xs) (simp_all add: boolean_index_def)

lemma isin_row_type:
  "isin (map row_type rs) T = map (\<lambda>r. row_type r \<in> Some ` set T) rs"
  by (auto simp: isin_def split: option.splits)

lemma filterByTypes_filter:
  "filterByTypes gdf T =
     gdf\<lparr>rows := filter (\<lambda>r. row_type r \<in> Some ` set T) (rows gdf)\<rparr>"
  by (simp add: filterByTypes_def isin_row_type boolean_index_map)

text \<open>
  C6. For every frame and every selection, \<open>filterByTypes\<close> keeps exactly the rows whose
  geometry type is one of the selected types, in the order they have in the frame: the
  mask-and-index of line 78 is the filter of the rows by membership of their type, the
  result is a subsequence of the input rows, and the CRS of the frame is kept.
\<close>

theorem filterByTypes_keeps_selected_in_order:
  "rows (filterByTypes gdf T) = filter (\<lambda>r. row_type r \<in> Some ` set T) (rows gdf)
   \<and> subseq (rows (filterByTypes gdf T)) (rows gdf)
   \<and> set (rows (filterByTypes gdf T)) = {r \<in> set (rows gdf). row_type r \<in> Some ` set T}
   \<and> crs (filterByTypes gdf T) = crs gdf"
  by (simp add: filterByTypes_filter)

text \<open>
  C7. \<open>filterByTypes\<close> is idempotent: filtering a frame already filtered with \<open>T\<close> again
  with \<open>T\<close> gives the same frame.
\<close>

theorem filterByTypes_idempotent:
  "filterByTypes (filterByTypes gdf T) T = filterByTypes gdf T"
  by (simp add: filterByTypes_filter)

text \<open>
  C4. With the empty selection \<open>filterByTypes\<close> keeps no row, and the stage of lines 77 to
  143 emits the warning and nothing else, whatever the libraries do: no map is built, no
  envelope is asked for, no error is shown.
\<close>

theorem empty_selection_warns:
  "rows (filterByTypes gdf []) = []
   \<and> filter_and_render L gdf [] =
       [Warning ''Please select at least one geometry type to display'']"
  by (simp add: filterByTypes_filter filter_and_render_def)

subsection \<open>The temporary file\<close>

lemma run_reads_payload:
  "fst (run L U tmp_path files (Some payload)) =
     (case read_table L payload of
        Inl e \<Rightarrow> [Error (''Error reading the parquet file: '' @ e)]
      | Inr df \<Rightarrow> process_table L U df)"
  by (simp add: run_def process_file_def)

text \<open>
  C8. After a pass over an upload the temporary file is gone, and every other path is as
  it was before, for all behaviours of the libraries and of the user: whether the read
  fails, no geometry column is found, decoding or map construction fails, the selection
  is empty, or the map is shown.
\<close>

theorem temporary_file_removed:
  "snd (run L U tmp_path files (Some payload)) = files(tmp_path := None)
   \<and> tmp_path \<notin> dom (snd (run L U tmp_path files (Some payload)))"
  by (simp add: run_def unlink_def)

subsection \<open>CRS normalisation\<close>

text \<open>
  C5. On the filtered frame, whose CRS is that of the decoded frame, the normalisation
  is the reprojection to EPSG:4326 when the CRS is known and is not EPSG:4326. When the
  CRS is unknown, and when it is EPSG:4326, the frame is passed on as it is, every
  geometry untouched, and the reprojection is not asked for.
\<close>

theorem normalizeCRS_reprojects_when_needed:
  "(crs gdf = None \<longrightarrow>
      normalizeCRS L gdf (filterByTypes gdf T) = Inr (filterByTypes gdf T))
   \<and> (crs gdf = Some ''EPSG:4326'' \<longrightarrow>
      normalizeCRS L gdf (filterByTypes gdf T) = Inr (filterByTypes gdf T))
   \<and> (\<forall>c. crs gdf = Some c \<longrightarrow> c \<noteq> ''EPSG:4326'' \<longrightarrow>
      normalizeCRS L gdf (filterByTypes gdf T) = to_crs L (filterByTypes gdf T) ''EPSG:4326'')
   \<and> crs (filterByTypes gdf T) = crs gdf"
  by (simp add: normalizeCRS_def filterByTypes_filter)

theorem normalizeCRS_reprojects_when_needed_witness:
  "normalizeCRS sample_libs sample_gdf (filterByTypes sample_gdf [''Point''])
     = Inr (filterByTypes sample_gdf [''Point''])
   \<and> normalizeCRS sample_libs (sample_gdf\<lparr>crs := Some ''EPSG:4326''\<rparr>)
         (filterByTypes (sample_gdf\<lparr>crs := Some ''EPSG:4326''\<rparr>) [''Point''])
     = Inr (filterByTypes (sample_gdf\<lparr>crs := Some ''EPSG:4326''\<rparr>) [''Point''])
   \<and> normalizeCRS sample_libs (sample_gdf\<lparr>crs := Some ''EPSG:3857''\<rparr>)
         (filterByTypes (sample_gdf\<lparr>crs := Some ''EPSG:3857''\<rparr>) [''Point''])
     = Inr ((filterByTypes (sample_gdf\<lparr>crs := Some ''EPSG:3857''\<rparr>) [''Point''])
              \<lparr>crs := Some ''EPSG:4326''\<rparr>)"
  using normalizeCRS_reprojects_when_needed [of sample_gdf sample_libs "[''Point'']"]
    normalizeCRS_reprojects_when_needed
      [of "sample_gdf\<lparr>crs := Some ''EPSG:4326''\<rparr>" sample_libs "[''Point'']"]
    normalizeCRS_reprojects_when_needed
      [of "sample_gdf\<lparr>crs := Some ''EPSG:3857''\<rparr>" sample_libs "[''Point'']"]
  by (simp add: sample_gdf_def sample_libs_def)

subsection \<open>The map view\<close>

lemma add_layer_cases:
  assumes "add_layer L f gt m = Inr m'"
  shows "m' = m \<or> (\<exists>l. m' = add_to l m)"
proof -
  have if_eq: "\<And>c (x::exn + folium_map) y r. (if c then x else y) = r \<Longrightarrow> x = r \<or> y = r"
    by (simp split: if_splits)
  have mk: "\<And>(x::exn + marker list) l.
      (case x of Inl e \<Rightarrow> Inl e | Inr ms \<Rightarrow> Inr (add_to (l ms) m)) = Inr m'
      \<Longrightarrow> \<exists>l. m' = add_to l m"
    by (auto split: sum.splits)
  have gj: "\<And>(x::exn option) l.
      (case x of Some e \<Rightarrow> Inl e | None \<Rightarrow> Inr (add_to l m)) = Inr m'
      \<Longrightarrow> \<exists>l. m' = add_to l m"
    by (auto split: option.splits)
  from assms show ?thesis
    unfolding add_layer_def Let_def
    by (blast dest!: if_eq mk gj)
qed

lemma add_layer_keeps_view:
  "add_layer L f gt m = Inr m' \<Longrightarrow>
     location m' = location m \<and> zoom_start m' = zoom_start m"
  by (drule add_layer_cases) (auto simp: add_to_def)

lemma add_layers_keeps_view:
  "add_layers L f gts m = Inr m' \<Longrightarrow>
     location m' = location m \<and> zoom_start m' = zoom_start m"
proof (induction gts arbitrary: m)
  case Nil
  then show ?case by simp
next
  case (Cons gt gts)
  from Cons.prems obtain m1 where 1: "add_layer L f gt m = Inr m1"
    and 2: "add_layers L f gts m1 = Inr m'"
    by (auto split: sum.splits)
  from add_layer_keeps_view[OF 1] Cons.IH[OF 2] show ?case by simp
qed

text \<open>
  C9. Whenever the map is built, its view is centred on the midpoint of the envelope of
  the filtered frame as normalised: with the envelope (min-x, min-y, max-x, max-y), the
  location of the map is the pair of (min-y + max-y) / 2, the latitude, and
  (min-x + max-x) / 2, the longitude, at zoom level 10. No layer added later moves it.
\<close>

theorem map_center_is_envelope_midpoint:
  assumes "build_map L gdf filtered_gdf selected_types = Inr m"
  shows "\<exists>f minx miny maxx maxy.
           normalizeCRS L gdf filtered_gdf = Inr f
           \<and> total_bounds L f = (minx, miny, maxx, maxy)
           \<and> location m = ((miny + maxy) / 2, (minx + maxx) / 2)
           \<and> zoom_start m = 10"
proof -
  from assms obtain f where f: "normalizeCRS L gdf filtered_gdf = Inr f"
    by (auto simp: build_map_def split: sum.splits)
  obtain minx miny maxx maxy where b: "total_bounds L f = (minx, miny, maxx, maxy)"
    by (cases "total_bounds L f")
  define c where "c = ((miny + maxy) / 2, (minx + maxx) / 2)"
  have mc: "map_center (total_bounds L f) = c"
    by (simp add: map_center_def b c_def)
  from assms f mc obtain m0 where
    m0: "add_layers L f selected_types \<lparr>location = c, zoom_start = 10, children = []\<rparr> = Inr m0"
    and m: "m = add_to LayerControl m0"
    by (auto simp: build_map_def Let_def split: sum.splits option.splits)
  from add_layers_keeps_view[OF m0] m have "location m = c \<and> zoom_start m = 10"
    by (simp add: add_to_def)
  with f b show ?thesis unfolding c_def by blast
qed

lemma build_map_sample_points:
  "build_map sample_libs sample_gdf (filterByTypes sample_gdf [''Point'']) [''Point'']
     = Inr \<lparr>location = (4, 2), zoom_start = 10,
            children = [MarkerCluster [Marker (2, 1) 0, Marker (6, 3) 2], LayerControl]\<rparr>"
  by (simp add: build_map_def normalizeCRS_def filterByTypes_filter sample_gdf_def
      sample_libs_def map_center_def add_layer_def boolean_index_def row_type_def
      point_row_def shape_row_def add_to_def Let_def)

theorem map_center_is_envelope_midpoint_witness:
  "build_map sample_libs sample_gdf (filterByTypes sample_gdf [''Point'']) [''Point'']
     = Inr \<lparr>location = (4, 2), zoom_start = 10,
            children = [MarkerCluster [Marker (2, 1) 0, Marker (6, 3) 2], LayerControl]\<rparr>
   \<and> (\<exists>f minx miny maxx maxy.
         normalizeCRS sample_libs sample_gdf (filterByTypes sample_gdf [''Point'']) = Inr f
         \<and> total_bounds sample_libs f = (minx, miny, maxx, maxy)
         \<and> location
              \<lparr>location = (4, 2), zoom_start = 10,
               children = [MarkerCluster [Marker (2, 1) 0, Marker (6, 3) 2], LayerControl]\<rparr>
             = ((miny + maxy) / 2, (minx + maxx) / 2)
         \<and> zoom_start
              \<lparr>location = (4, 2), zoom_start = 10,
               children = [MarkerCluster [Marker (2, 1) 0, Marker (6, 3) 2], LayerControl]\<rparr>
             = 10)"
  using map_center_is_envelope_midpoint [OF build_map_sample_points] build_map_sample_points
  by blast

subsection \<open>The selection and the rows it keeps\<close>

lemma str_items_Inr: "str_items xs = Inr ys \<Longrightarrow> xs = map Some ys"
proof (induction xs arbitrary: ys)
  case Nil
  then show ?case by simp
next
  case (Cons x xs)
  then show ?case
    by (cases x) (auto split: sum.splits)
qed

lemma set_unique: "set (unique xs) = set xs"
  by (induction xs) auto

lemma distinct_unique: "distinct (unique xs)"
  by (induction xs) auto

lemma build_map_envelope:
  assumes "build_map L gdf filtered_gdf selected_types = Inr m"
  shows "\<exists>f. normalizeCRS L gdf filtered_gdf = Inr f
           \<and> location m = map_center (total_bounds L f)"
proof -
  from assms obtain f where f: "normalizeCRS L gdf filtered_gdf = Inr f"
    by (auto simp: build_map_def split: sum.splits)
  from assms f obtain m0 where
    m0: "add_layers L f selected_types
           \<lparr>location = map_center (total_bounds L f), zoom_start = 10, children = []\<rparr> = Inr m0"
    and m: "m = add_to LayerControl m0"
    by (auto simp: build_map_def Let_def split: sum.splits option.splits)
  from add_layers_keeps_view[OF m0] m have "location m = map_center (total_bounds L f)"
    by (simp add: add_to_def)
  with f show ?thesis by blast
qed

lemma normalizeCRS_cases:
  "normalizeCRS L gdf filtered_gdf = Inr f \<Longrightarrow>
     f = filtered_gdf \<or> to_crs L filtered_gdf ''EPSG:4326'' = Inr f"
  by (auto simp: normalizeCRS_def split: if_splits)

text \<open>
  C10. The options of the type selector are the distinct geometry types of the rows of
  the decoded frame. Streamlit returns a selection made of options; for such a selection
  that is not empty, which is when the map is built, the filtered frame has a row of
  every selected type, so it is not empty. With such a selection the pass takes the
  map-construction branch, where the envelope is taken of the filtered frame as
  normalised. Where the reprojection of the filtered frame keeps the number of rows,
  as \<^verbatim>\<open>to_crs\<close> of geopandas does, every frame the normalisation hands to
  \<^verbatim>\<open>total_bounds\<close> has a row, and the centre of every map that is built is the centre of
  the envelope of a frame that has a row.
\<close>

theorem selection_keeps_a_row_per_type:
  assumes types: "str_items (geometry_types gdf) = Inr types"
    and sub: "set selected_types \<subseteq> set types"
    and ne: "selected_types \<noteq> []"
  shows "rows (filterByTypes gdf selected_types) \<noteq> []
         \<and> (\<forall>t \<in> set selected_types.
               \<exists>r \<in> set (rows (filterByTypes gdf selected_types)). row_type r = Some t)
         \<and> distinct types
         \<and> Some ` set types = row_type ` set (rows gdf)
         \<and> filter_and_render L gdf selected_types =
               (case build_map L gdf (filterByTypes gdf selected_types) selected_types of
                  Inl e \<Rightarrow> [Error (''Error creating map: '' @ e)]
                | Inr m \<Rightarrow> [Subheader ''Map Visualization'', Folium_static m])
         \<and> ((\<forall>f'. to_crs L (filterByTypes gdf selected_types) ''EPSG:4326'' = Inr f' \<longrightarrow>
                  length (rows f') = length (rows (filterByTypes gdf selected_types)))
              \<longrightarrow>
                (\<forall>f. normalizeCRS L gdf (filterByTypes gdf selected_types) = Inr f \<longrightarrow>
                   rows f \<noteq> [])
                \<and> (\<forall>m. build_map L gdf (filterByTypes gdf selected_types) selected_types = Inr m
                     \<longrightarrow>
                       (\<exists>f. normalizeCRS L gdf (filterByTypes gdf selected_types) = Inr f
                          \<and> rows f \<noteq> []
                          \<and> location m = map_center (total_bounds L f))))"
proof -
  let ?fl = "filterByTypes gdf selected_types"
  from str_items_Inr[OF types] have gt: "geometry_types gdf = map Some types" .
  have "set (geometry_types gdf) = row_type ` set (rows gdf)"
    by (simp add: geometry_types_def set_unique)
  with gt have present: "Some ` set types = row_type ` set (rows gdf)" by simp
  have "distinct (geometry_types gdf)"
    by (simp add: geometry_types_def distinct_unique)
  with gt have dist: "distinct types" by (simp add: distinct_map)
  have each: "\<exists>r \<in> set (rows ?fl). row_type r = Some t"
    if t: "t \<in> set selected_types" for t
  proof -
    from t sub have "Some t \<in> Some ` set types" by blast
    with present obtain r where r: "r \<in> set (rows gdf)" "row_type r = Some t" by force
    with t have "r \<in> set (rows ?fl)"
      by (simp add: filterByTypes_filter)
    with r show ?thesis by blast
  qed
  from ne obtain t where "t \<in> set selected_types" by (cases selected_types) auto
  with each have nonempty: "rows ?fl \<noteq> []" by fastforce
  have envelope:
    "(\<forall>f. normalizeCRS L gdf ?fl = Inr f \<longrightarrow> rows f \<noteq> [])
     \<and> (\<forall>m. build_map L gdf ?fl selected_types = Inr m \<longrightarrow>
           (\<exists>f. normalizeCRS L gdf ?fl = Inr f \<and> rows f \<noteq> []
              \<and> location m = map_center (total_bounds L f)))"
    if keeps: "\<forall>f'. to_crs L ?fl ''EPSG:4326'' = Inr f' \<longrightarrow>
                 length (rows f') = length (rows ?fl)"
  proof -
    have frame: "rows f \<noteq> []" if f: "normalizeCRS L gdf ?fl = Inr f" for f
    proof -
      from normalizeCRS_cases[OF f] show ?thesis
      proof
        assume "f = ?fl"
        with nonempty show ?thesis by simp
      next
        assume "to_crs L ?fl ''EPSG:4326'' = Inr f"
        with keeps have "length (rows f) = length (rows ?fl)" by blast
        with nonempty show ?thesis by auto
      qed
    qed
    have "\<exists>f. normalizeCRS L gdf ?fl = Inr f \<and> rows f \<noteq> []
              \<and> location m = map_center (total_bounds L f)"
      if m: "build_map L gdf ?fl selected_types = Inr m" for m
    proof -
      from build_map_envelope[OF m] obtain f where
        "normalizeCRS L gdf ?fl = Inr f" "location m = map_center (total_bounds L f)"
        by blast
      with frame show ?thesis by blast
    qed
    with frame show ?thesis by blast
  qed
  from ne have branch:
    "filter_and_render L gdf selected_types =
       (case build_map L gdf ?fl selected_types of
          Inl e \<Rightarrow> [Error (''Error creating map: '' @ e)]
        | Inr m \<Rightarrow> [Subheader ''Map Visualization'', Folium_static m])"
    by (simp add: filter_and_render_def)
  from nonempty each dist present branch envelope show ?thesis by blast
qed

lemma sample_types: "str_items (geometry_types sample_gdf) = Inr [''Point'', ''Polygon'']"
  by (simp add: geometry_types_def sample_gdf_def row_type_def point_row_def shape_row_def)

lemma sample_types_3857:
  "str_items (geometry_types (sample_gdf\<lparr>crs := Some ''EPSG:3857''\<rparr>)) =
     Inr [''Point'', ''Polygon'']"
  by (simp add: geometry_types_def sample_gdf_def row_type_def point_row_def shape_row_def)

lemma sample_polygon_rows_3857:
  "filterByTypes (sample_gdf\<lparr>crs := Some ''EPSG:3857''\<rparr>) [''Polygon''] =
     \<lparr>rows = [shape_row 1 ''Polygon'' [(1, 2), (3, 2), (3, 6), (1, 2)]],
      crs = Some ''EPSG:3857''\<rparr>"
  by (simp add: filterByTypes_filter sample_gdf_def row_type_def point_row_def shape_row_def)

lemma build_map_sample_3857:
  "build_map sample_libs (sample_gdf\<lparr>crs := Some ''EPSG:3857''\<rparr>)
       (filterByTypes (sample_gdf\<lparr>crs := Some ''EPSG:3857''\<rparr>) [''Polygon'']) [''Polygon'']
     = Inr \<lparr>location = (4, 2), zoom_start = 10,
            children =
              [GeoJson ''Polygon'' [shape_row 1 ''Polygon'' [(1, 2), (3, 2), (3, 6), (1, 2)]]
                 polygon_style,
               LayerControl]\<rparr>"
  unfolding sample_polygon_rows_3857
  by (simp add: build_map_def normalizeCRS_def sample_gdf_def sample_libs_def map_center_def
      add_layer_def boolean_index_def row_type_def shape_row_def add_to_def Let_def)

theorem selection_keeps_a_row_per_type_witness:
  "str_items (geometry_types (sample_gdf\<lparr>crs := Some ''EPSG:3857''\<rparr>)) =
     Inr [''Point'', ''Polygon'']
   \<and> set [''Polygon''] \<subseteq> set [''Point'', ''Polygon'']
   \<and> [''Polygon''] \<noteq> ([] :: string list)
   \<and> (\<forall>f c. to_crs sample_libs f c = Inr (f\<lparr>crs := Some c\<rparr>))
   \<and> rows (filterByTypes (sample_gdf\<lparr>crs := Some ''EPSG:3857''\<rparr>) [''Polygon'']) \<noteq> []
   \<and> (\<exists>r \<in> set (rows (filterByTypes (sample_gdf\<lparr>crs := Some ''EPSG:3857''\<rparr>) [''Polygon''])).
         row_type r = Some ''Polygon'')
   \<and> distinct [''Point'', ''Polygon'']
   \<and> (\<exists>m f. build_map sample_libs (sample_gdf\<lparr>crs := Some ''EPSG:3857''\<rparr>)
                (filterByTypes (sample_gdf\<lparr>crs := Some ''EPSG:3857''\<rparr>) [''Polygon''])
                [''Polygon''] = Inr m
          \<and> normalizeCRS sample_libs (sample_gdf\<lparr>crs := Some ''EPSG:3857''\<rparr>)
                (filterByTypes (sample_gdf\<lparr>crs := Some ''EPSG:3857''\<rparr>) [''Polygon'']) = Inr f
          \<and> crs f = Some ''EPSG:4326''
          \<and> rows f \<noteq> []
          \<and> location m = map_center (total_bounds sample_libs f))"
proof -
  let ?G = "sample_gdf\<lparr>crs := Some ''EPSG:3857''\<rparr>"
  let ?fl = "filterByTypes ?G [''Polygon'']"
  have lib: "\<forall>f c. to_crs sample_libs f c = Inr (f\<lparr>crs := Some c\<rparr>)"
    by (simp add: sample_libs_def)
  then have keeps: "\<forall>f'. to_crs sample_libs ?fl ''EPSG:4326'' = Inr f' \<longrightarrow>
                      length (rows f') = length (rows ?fl)"
    by auto
  have sel: "set [''Polygon''] \<subseteq> set [''Point'', ''Polygon'']" "[''Polygon''] \<noteq> ([] :: string list)"
    by simp_all
  note inst = selection_keeps_a_row_per_type [OF sample_types_3857 sel, of sample_libs]
  from inst keeps have env:
    "\<forall>m. build_map sample_libs ?G ?fl [''Polygon''] = Inr m \<longrightarrow>
       (\<exists>f. normalizeCRS sample_libs ?G ?fl = Inr f \<and> rows f \<noteq> []
          \<and> location m = map_center (total_bounds sample_libs f))"
    by blast
  with build_map_sample_3857 obtain f where
    f: "normalizeCRS sample_libs ?G ?fl = Inr f" "rows f \<noteq> []"
       "location \<lparr>location = (4, 2), zoom_start = 10,
            children =
              [GeoJson ''Polygon'' [shape_row 1 ''Polygon'' [(1, 2), (3, 2), (3, 6), (1, 2)]]
                 polygon_style,
               LayerControl]\<rparr> = map_center (total_bounds sample_libs f)"
    by blast
  from f(1) lib have "crs f = Some ''EPSG:4326''"
    by (auto simp: normalizeCRS_def sample_gdf_def split: if_splits)
  with f build_map_sample_3857 have last:
    "\<exists>m f. build_map sample_libs ?G ?fl [''Polygon''] = Inr m
          \<and> normalizeCRS sample_libs ?G ?fl = Inr f
          \<and> crs f = Some ''EPSG:4326''
          \<and> rows f \<noteq> []
          \<and> location m = map_center (total_bounds sample_libs f)"
    by (intro exI[of _ "\<lparr>location = (4, 2), zoom_start = 10,
            children =
              [GeoJson ''Polygon'' [shape_row 1 ''Polygon'' [(1, 2), (3, 2), (3, 6), (1, 2)]]
                 polygon_style,
               LayerControl]\<rparr>"] exI[of _ f]) simp
  from inst have first:
    "rows ?fl \<noteq> []" "\<exists>r \<in> set (rows ?fl). row_type r = Some ''Polygon''"
    by simp_all
  from sample_types_3857 sel lib first last show ?thesis
    by (intro conjI) simp_all
qed

subsection \<open>Decoding\<close>

text \<open>What lines 44 to 55 do, case by case.\<close>

lemma decode_constructor_raises:
  "gpd_GeoDataFrame L df c = Inl e \<Longrightarrow> decode L df c = ([], Inl e)"
  by (simp add: decode_def)

lemma decode_empty_frame:
  "gpd_GeoDataFrame L df c = Inr gdf \<Longrightarrow> rows gdf = [] \<Longrightarrow>
     decode L df c = ([], Inl ''single positional indexer is out-of-bounds'')"
  by (simp add: decode_def iloc0_def)

lemma decode_wkt_replaces:
  "gpd_GeoDataFrame L df c = Inr gdf \<Longrightarrow> rows gdf \<noteq> [] \<Longrightarrow> from_wkt L df c = Inr g \<Longrightarrow>
     decode L df c = ([], Inr g)"
  by (simp add: decode_def iloc0_def isinstance_GeoSeries_def split: list.splits)

lemma decode_wkb_replaces:
  "gpd_GeoDataFrame L df c = Inr gdf \<Longrightarrow> rows gdf \<noteq> [] \<Longrightarrow> from_wkt L df c = Inl e \<Longrightarrow>
   from_wkb L df c = Inr g \<Longrightarrow> decode L df c = ([], Inr g)"
  by (simp add: decode_def iloc0_def isinstance_GeoSeries_def split: list.splits)

lemma decode_parsers_fail:
  "gpd_GeoDataFrame L df c = Inr gdf \<Longrightarrow> rows gdf \<noteq> [] \<Longrightarrow> from_wkt L df c = Inl e \<Longrightarrow>
   from_wkb L df c = Inl e' \<Longrightarrow>
     decode L df c =
       ([Error ''Could not convert the geometry column to a valid geometry. Please check your data.''],
        Inr gdf)"
  by (simp add: decode_def iloc0_def isinstance_GeoSeries_def split: list.splits)

lemma sample_rows_ne: "rows sample_gdf \<noteq> []"
  by (simp add: sample_gdf_def)

text \<open>
  C1. The claim is that the decoder tries the constructor, then the WKT parser, then the
  WKB parser, stops at the first that succeeds, and halts the pass with an error when
  all three fail. The script does not do this. On the sample file, whose geometry column
  holds WKT strings, the constructor raises and the WKT parser would succeed; the script
  does not call it, and the pass ends with the message of the handler of line 145. And
  where the constructor succeeds and both parsers fail, the script shows the conversion
  error and goes on to the summary with the frame of the constructor.
\<close>

theorem decode_on_wkt_column:
  "from_wkt sample_libs sample_df ''geometry'' = Inr sample_gdf
   \<and> decode sample_libs sample_df ''geometry'' =
       ([], Inl ''Input must be valid geometry objects'')
   \<and> fst (run sample_libs U tmp_path files (Some payload)) =
       [Error ''Error processing the data: Input must be valid geometry objects'']
   \<and> (\<exists>rest.
        try_process_geometry
          (sample_libs\<lparr>gpd_GeoDataFrame := \<lambda>_ _. Inr sample_gdf,
                        from_wkt := \<lambda>_ _. Inl ''Expected str''\<rparr>)
          U sample_df ''geometry'' =
        Error ''Could not convert the geometry column to a valid geometry. Please check your data.''
          # Subheader ''Data Information'' # Write_total_rows 3 # rest)"
proof -
  have a: "from_wkt sample_libs sample_df ''geometry'' = Inr sample_gdf"
    by (simp add: sample_libs_def)
  have b: "decode sample_libs sample_df ''geometry'' =
       ([], Inl ''Input must be valid geometry objects'')"
    by (rule decode_constructor_raises) (simp add: sample_libs_def)
  have "process_table sample_libs U sample_df =
       [Error ''Error processing the data: Input must be valid geometry objects'']"
    by (simp add: process_table_def geometry_cols_sample try_process_geometry_def
        process_geometry_def b)
  moreover have "read_table sample_libs payload = Inr sample_df"
    by (simp add: sample_libs_def)
  ultimately have c: "fst (run sample_libs U tmp_path files (Some payload)) =
       [Error ''Error processing the data: Input must be valid geometry objects'']"
    by (simp add: run_reads_payload)
  let ?L = "sample_libs\<lparr>gpd_GeoDataFrame := \<lambda>_ _. Inr sample_gdf,
                        from_wkt := \<lambda>_ _. Inl ''Expected str''\<rparr>"
  have "decode ?L sample_df ''geometry'' =
       ([Error ''Could not convert the geometry column to a valid geometry. Please check your data.''],
        Inr sample_gdf)"
    by (rule decode_parsers_fail[OF _ sample_rows_ne]) (simp_all add: sample_libs_def)
  moreover have "length (rows sample_gdf) = 3" by (simp add: sample_gdf_def)
  ultimately have d: "\<exists>rest. try_process_geometry ?L U sample_df ''geometry'' =
        Error ''Could not convert the geometry column to a valid geometry. Please check your data.''
          # Subheader ''Data Information'' # Write_total_rows 3 # rest"
    by (simp add: try_process_geometry_def process_geometry_def Let_def
        split: sum.splits)
  from a b c d show ?thesis by (intro conjI)
qed

subsection \<open>Layers\<close>

lemma markers_one_per_row:
  "markers L rs = Inr ms \<Longrightarrow> length ms = length rs \<and> map popup_id ms = map idx rs"
proof (induction rs arbitrary: ms)
  case Nil
  then show ?case by simp
next
  case (Cons r rs)
  then show ?case
    by (auto split: option.splits sum.splits prod.splits)
qed

text \<open>
  The rows of type \<open>Point\<close> get one cluster with one marker per row, labelled with the
  index of the row.
\<close>

lemma point_layer_one_marker_per_row:
  assumes "add_layer L f ''Point'' m = Inr m'"
    and "filter (\<lambda>r. row_type r = Some ''Point'') (rows f) \<noteq> []"
  shows "\<exists>ms. m' = add_to (MarkerCluster ms) m
           \<and> map popup_id ms = map idx (filter (\<lambda>r. row_type r = Some ''Point'') (rows f))"
  using assms
  by (auto simp: add_layer_def boolean_index_map split: sum.splits dest: markers_one_per_row)

text \<open>
  C3. The claim is that every selected type present gets one layer and that the rows of
  type \<open>Point\<close> or \<open>MultiPoint\<close> become clustered markers. The script tests for \<open>Point\<close> only:
  for \<open>MultiPoint\<close> the loop body leaves the map as it is, whatever the frame and the
  libraries, and a frame of \<open>MultiPoint\<close> rows gives a map whose only child is the layer
  control.
\<close>

theorem multipoint_gets_no_layer:
  "add_layer L f ''MultiPoint'' m = Inr m
   \<and> rows (filterByTypes multipoint_gdf [''MultiPoint'']) = rows multipoint_gdf
   \<and> build_map sample_libs multipoint_gdf
        (filterByTypes multipoint_gdf [''MultiPoint'']) [''MultiPoint'']
       = Inr \<lparr>location = (4, 2), zoom_start = 10, children = [LayerControl]\<rparr>"
proof -
  have a: "add_layer L f ''MultiPoint'' m = Inr m" for L f m
    by (simp add: add_layer_def Let_def)
  have b: "rows (filterByTypes multipoint_gdf [''MultiPoint'']) = rows multipoint_gdf"
    by (simp add: filterByTypes_filter multipoint_gdf_def row_type_def shape_row_def)
  have "normalizeCRS sample_libs multipoint_gdf (filterByTypes multipoint_gdf [''MultiPoint''])
          = Inr (filterByTypes multipoint_gdf [''MultiPoint''])"
    by (simp add: normalizeCRS_def multipoint_gdf_def)
  then have "build_map sample_libs multipoint_gdf
        (filterByTypes multipoint_gdf [''MultiPoint'']) [''MultiPoint'']
       = Inr \<lparr>location = (4, 2), zoom_start = 10, children = [LayerControl]\<rparr>"
    by (simp add: build_map_def a map_center_def sample_libs_def add_to_def)
  with a b show ?thesis by simp
qed

subsection \<open>A complete pass\<close>

text \<open>
  Where the constructor accepts the sample frame and the WKT parser succeeds, the pass
  shows the summary, the selector and the map with a cluster for the points and a layer
  for the polygon, and removes the temporary file.
\<close>

lemma build_map_sample_all:
  "build_map (sample_libs\<lparr>gpd_GeoDataFrame := g\<rparr>) sample_gdf
       (filterByTypes sample_gdf [''Point'', ''Polygon'']) [''Point'', ''Polygon'']
     = Inr \<lparr>location = (4, 2), zoom_start = 10,
            children =
              [MarkerCluster [Marker (2, 1) 0, Marker (6, 3) 2],
               GeoJson ''Polygon'' [shape_row 1 ''Polygon'' [(1, 2), (3, 2), (3, 6), (1, 2)]]
                 polygon_style,
               LayerControl]\<rparr>"
  by (simp add: build_map_def normalizeCRS_def filterByTypes_filter sample_gdf_def
      sample_libs_def map_center_def add_layer_def boolean_index_def row_type_def
      point_row_def shape_row_def add_to_def Let_def)

lemma sample_pass_shows_map:
  "run (sample_libs\<lparr>gpd_GeoDataFrame := \<lambda>_ _. Inr sample_gdf\<rparr>) default_user
       tmp_path files (Some payload) =
     ([Subheader ''Data Information'', Write_total_rows 3, Write_crs None,
       Write_geometry_types ''Point, Polygon'', Subheader ''Data Sample'',
       Dataframe sample_df, Subheader ''Filter by Geometry Type'',
       Multiselect ''Select geometry types to display'' [''Point'', ''Polygon'']
         [''Point'', ''Polygon''],
       Subheader ''Map Visualization'',
       Folium_static
         \<lparr>location = (4, 2), zoom_start = 10,
          children =
            [MarkerCluster [Marker (2, 1) 0, Marker (6, 3) 2],
             GeoJson ''Polygon'' [shape_row 1 ''Polygon'' [(1, 2), (3, 2), (3, 6), (1, 2)]]
               polygon_style,
             LayerControl]\<rparr>],
      files(tmp_path := None))"
proof -
  let ?L = "sample_libs\<lparr>gpd_GeoDataFrame := \<lambda>_ _. Inr sample_gdf\<rparr>"
  have d: "decode ?L sample_df ''geometry'' = ([], Inr sample_gdf)"
    by (rule decode_wkt_replaces[OF _ sample_rows_ne]) (simp_all add: sample_libs_def)
  have t: "str_items (geometry_types sample_gdf) = Inr [''Point'', ''Polygon'']"
    by (rule sample_types)
  have h: "head sample_df = sample_df" by (simp add: head_def sample_df_def)
  have n: "length (rows sample_gdf) = 3" "crs sample_gdf = None" by (simp_all add: sample_gdf_def)
  have p: "process_table ?L default_user sample_df = fst (run ?L default_user tmp_path files (Some payload))"
    by (simp add: run_reads_payload sample_libs_def)
  have "process_table ?L default_user sample_df = [Subheader ''Data Information'', Write_total_rows 3, Write_crs None,
       Write_geometry_types ''Point, Polygon'', Subheader ''Data Sample'',
       Dataframe sample_df, Subheader ''Filter by Geometry Type'',
       Multiselect ''Select geometry types to display'' [''Point'', ''Polygon'']
         [''Point'', ''Polygon''],
       Subheader ''Map Visualization'',
       Folium_static
         \<lparr>location = (4, 2), zoom_start = 10,
          children =
            [MarkerCluster [Marker (2, 1) 0, Marker (6, 3) 2],
             GeoJson ''Polygon'' [shape_row 1 ''Polygon'' [(1, 2), (3, 2), (3, 6), (1, 2)]]
               polygon_style,
             LayerControl]\<rparr>]"
    by (simp add: process_table_def geometry_cols_sample try_process_geometry_def
        process_geometry_def d t h n default_user_def filter_and_render_def build_map_sample_all Let_def)
  moreover have "snd (run ?L default_user tmp_path files (Some payload)) = files(tmp_path := None)"
    by (simp add: run_def unlink_def)
  ultimately show ?thesis
    using p by (simp add: prod_eq_iff)
qed


end
